theory Spec2Isabelle
  imports Complex_Main
begin

section \<open>Python values shared by the modules\<close>

text \<open>
  Exceptions are values. Only the position of a class in the hierarchy matters to the
  handlers of the repository: \<^verbatim>\<open>except Exception\<close> (orchestrator, dashboard) and
  \<^verbatim>\<open>except requests.exceptions.RequestException\<close> (market-data client).
  \<open>KeyboardInterrupt\<close>, \<open>SystemExit\<close>, \<open>CancelledError\<close> (asyncio) and
  \<open>GeneratorExit\<close> derive from \<open>BaseException\<close> directly; every other class below
  derives from \<open>Exception\<close>. \<open>RequestException\<close> stands for the class and its
  subclasses (connection errors, timeouts, invalid URLs).
\<close>

datatype exn_class =
    NameError | ValueError | AttributeError | OSError | RequestException
  | KeyboardInterrupt | SystemExit | CancelledError | GeneratorExit
  | OtherException string

datatype py_exn = Raised exn_class string

fun exn_cls :: "py_exn \<Rightarrow> exn_class" where
  "exn_cls (Raised c m) = c"

text \<open>\<^verbatim>\<open>str(e)\<close>: the message the exception was raised with.\<close>

fun exn_str :: "py_exn \<Rightarrow> string" where
  "exn_str (Raised c m) = m"

fun is_Exception :: "exn_class \<Rightarrow> bool" where
  "is_Exception KeyboardInterrupt = False"
| "is_Exception SystemExit = False"
| "is_Exception CancelledError = False"
| "is_Exception GeneratorExit = False"
| "is_Exception c = True"

fun is_RequestException :: "exn_class \<Rightarrow> bool" where
  "is_RequestException RequestException = True"
| "is_RequestException c = False"

text \<open>\<^verbatim>\<open>str(n)\<close> for an integer: its decimal digits.\<close>

fun digits_of_nat :: "nat \<Rightarrow> string" where
  "digits_of_nat n =
     (if n < 10 then [char_of (48 + n)]
      else digits_of_nat (n div 10) @ [char_of (48 + n mod 10)])"

definition str_of_int :: "int \<Rightarrow> string" where
  "str_of_int i = (if i < 0 then CHR ''-'' # digits_of_nat (nat (- i)) else digits_of_nat (nat i))"

text \<open>\<^verbatim>\<open>'%0*d'\<close>: a natural number padded with zeros to a width.\<close>

definition zero_pad :: "nat \<Rightarrow> nat \<Rightarrow> string" where
  "zero_pad w n = (let ds = digits_of_nat n in replicate (w - length ds) CHR ''0'' @ ds)"

text \<open>
  \<^verbatim>\<open>str.upper\<close> follows the Unicode case mapping of the interpreter (it maps
  \<open>e\<close> with an acute accent to its capital and the sharp s to two letters), which
  is not part of the repository: the functions that call it take it as their parameter
  \<open>str_upper\<close>, and what is proved of them holds for every such function. On a string
  of ASCII characters \<^verbatim>\<open>str.upper\<close> is the map below; the worked examples use it,
  on ASCII symbols only.
\<close>

definition ascii_upper_char :: "char \<Rightarrow> char" where
  "ascii_upper_char c =
     (let n = (of_char c :: nat) in if 97 \<le> n \<and> n \<le> 122 then char_of (n - 32) else c)"

definition ascii_upper :: "string \<Rightarrow> string" where
  "ascii_upper s = map ascii_upper_char s"

section \<open>Dates: the part of \<open>datetime\<close> the generator uses\<close>

text \<open>
  A naive \<open>datetime\<close> is a proleptic Gregorian ordinal (day 1 is 0001-01-01) and a time
  of day; microseconds play no part in any operation of the repository.
  \<^verbatim>\<open>timedelta(days=n)\<close> moves the ordinal and leaves the time of day alone.
\<close>

record datetime =
  ordinal :: int
  second_of_day :: nat

definition minus_days :: "datetime \<Rightarrow> int \<Rightarrow> datetime" where
  "minus_days d n = d\<lparr>ordinal := ordinal d - n\<rparr>"

definition plus_days :: "datetime \<Rightarrow> int \<Rightarrow> datetime" where
  "plus_days d n = d\<lparr>ordinal := ordinal d + n\<rparr>"

text \<open>\<^verbatim>\<open>weekday()\<close>: Monday is 0, Sunday is 6; \<^verbatim>\<open>(toordinal() + 6) % 7\<close>.\<close>

definition weekday :: "datetime \<Rightarrow> int" where
  "weekday d = (ordinal d + 6) mod 7"

definition days_before_month :: "int \<Rightarrow> int" where
  "days_before_month m =
     [0, 0, 31, 59, 90, 120, 151, 181, 212, 243, 273, 304, 334] ! nat m"

definition days_in_month :: "int \<Rightarrow> int" where
  "days_in_month m = [0, 31, 28, 31, 30, 31, 30, 31, 31, 30, 31, 30, 31] ! nat m"

text \<open>The standard library's conversion of an ordinal to year, month and day.\<close>

definition ord2ymd :: "int \<Rightarrow> int \<times> int \<times> int" where
  "ord2ymd n0 =
     (let n = n0 - 1;
          n400 = n div 146097; n = n mod 146097;
          year = n400 * 400 + 1;
          n100 = n div 36524; n = n mod 36524;
          n4 = n div 1461; n = n mod 1461;
          n1 = n div 365; n = n mod 365;
          year = year + n100 * 100 + n4 * 4 + n1
      in if n1 = 4 \<or> n100 = 4 then (year - 1, 12, 31)
         else
           (let leapyear = (n1 = 3 \<and> (n4 \<noteq> 24 \<or> n100 = 3));
                month = (n + 50) div 32;
                preceding = days_before_month month + (if month > 2 \<and> leapyear then 1 else 0)
            in if preceding > n
               then (let month' = month - 1;
                         preceding' = preceding
                           - (days_in_month month' + (if month' = 2 \<and> leapyear then 1 else 0))
                     in (year, month', n - preceding' + 1))
               else (year, month, n - preceding + 1)))"

text \<open>
  \<^verbatim>\<open>date.isoformat()\<close> of the day with a given ordinal, and
  \<^verbatim>\<open>strftime("%Y-%m-%d")\<close>, which prints the same text.
\<close>

definition iso_date :: "int \<Rightarrow> string" where
  "iso_date n =
     (case ord2ymd n of
        (y, m, dd) \<Rightarrow> zero_pad 4 (nat y) @ ''-'' @ zero_pad 2 (nat m) @ ''-'' @ zero_pad 2 (nat dd))"

definition strftime_ymd :: "datetime \<Rightarrow> string" where
  "strftime_ymd d = iso_date (ordinal d)"

section \<open>The random source\<close>

text \<open>
  The module-level generator of \<open>random\<close> is global mutable state that the repository
  never seeds. It is modelled as a tape of raw draws and a read position; every call
  consumes one entry. \<open>random()\<close> is a multiple of \<open>2^-53\<close> in \<open>[0, 1)\<close>;
  \<^verbatim>\<open>uniform(a, b)\<close> is \<^verbatim>\<open>a + (b - a) * random()\<close>; \<^verbatim>\<open>randint(a, b)\<close> is an
  integer between \<open>a\<close> and \<open>b\<close>, both included. Floats are modelled by the rationals
  they denote.
\<close>

record rng =
  tape :: "nat \<Rightarrow> nat"
  pos :: nat

definition next_raw :: "rng \<Rightarrow> nat \<times> rng" where
  "next_raw g = (tape g (pos g), g\<lparr>pos := Suc (pos g)\<rparr>)"

definition random_unit :: "rng \<Rightarrow> rat \<times> rng" where
  "random_unit g = (case next_raw g of (r, g') \<Rightarrow> (of_nat (r mod 2 ^ 53) / 2 ^ 53, g'))"

definition uniform :: "rat \<Rightarrow> rat \<Rightarrow> rng \<Rightarrow> rat \<times> rng" where
  "uniform a b g = (case random_unit g of (u, g') \<Rightarrow> (a + (b - a) * u, g'))"

definition randint :: "int \<Rightarrow> int \<Rightarrow> rng \<Rightarrow> int \<times> rng" where
  "randint a b g = (case next_raw g of (r, g') \<Rightarrow> (a + int (r mod nat (b - a + 1)), g'))"

text \<open>
  \<^verbatim>\<open>round(x, 2)\<close>: the nearest multiple of one hundredth, a tie going to the even
  neighbour.
\<close>

definition round_half_even :: "rat \<Rightarrow> int" where
  "round_half_even x =
     (let f = \<lfloor>x\<rfloor>; d = x - of_int f
      in if d < 1 / 2 then f else if 1 / 2 < d then f + 1 else if even f then f else f + 1)"

definition round2 :: "rat \<Rightarrow> rat" where
  "round2 x = of_int (round_half_even (x * 100)) / 100"

section \<open>The world a call runs in\<close>

text \<open>
  The system clock (seconds of local time since 1970-01-01, which is ordinal 719163), the
  random source, the HTTP requests issued so far and the lines printed so far.
\<close>

record http_request =
  url :: string
  sent_headers :: "(string \<times> string) list"
  json_symbol :: string
  json_period :: string
  json_start_date :: "string option"
  json_end_date :: "string option"
  timeout :: nat

record world =
  clock :: nat
  random_state :: rng
  http_log :: "http_request list"
  stdout :: "string list"

definition datetime_now :: "world \<Rightarrow> datetime" where
  "datetime_now w =
     \<lparr>ordinal = 719163 + int (clock w div 86400), second_of_day = clock w mod 86400\<rparr>"

section \<open>The synthetic series generator (\<open>src/utils/helpers.py\<close>)\<close>

record data_point =
  pt_date :: string
  pt_open :: rat
  pt_high :: rat
  pt_low :: rat
  pt_close :: rat
  pt_volume :: int
  pt_adjusted_close :: rat

record ('s, 'p) sample_data =
  sd_symbol :: 's
  sd_period :: 'p
  sd_data :: "data_point list"

text \<open>One kept day of the loop body: five draws, in the order of the source.\<close>

definition sample_point :: "datetime \<Rightarrow> int \<Rightarrow> rng \<Rightarrow> data_point \<times> rng" where
  "sample_point date base_price g =
     (case uniform (- 2) 2 g of (u1, g1) \<Rightarrow>
      case uniform (- 5) 5 g1 of (u2, g2) \<Rightarrow>
      case uniform 0 3 g2 of (u3, g3) \<Rightarrow>
      case uniform 0 3 g3 of (u4, g4) \<Rightarrow>
      case randint 1000000 5000000 g4 of (volume, g5) \<Rightarrow>
        (let open_price = of_int base_price + u1;
             close_price = open_price + u2;
             high_price = max open_price close_price + u3;
             low_price = min open_price close_price - u4
         in (\<lparr>pt_date = strftime_ymd date,
              pt_open = round2 open_price,
              pt_high = round2 high_price,
              pt_low = round2 low_price,
              pt_close = round2 close_price,
              pt_volume = volume,
              pt_adjusted_close = round2 close_price\<rparr>, g5)))"

text \<open>
  The loop \<^verbatim>\<open>for i in range(250)\<close>; its state is the list appended to and the random
  source.
\<close>

fun sample_loop ::
  "nat list \<Rightarrow> datetime \<Rightarrow> int \<Rightarrow> data_point list \<times> rng \<Rightarrow> data_point list \<times> rng" where
  "sample_loop [] current_date base_price st = st"
| "sample_loop (i # is) current_date base_price (data_points, g) =
     (let date = plus_days current_date (int i)
      in if weekday date < 5
         then (case sample_point date base_price g of
                 (pt, g') \<Rightarrow> sample_loop is current_date base_price (data_points @ [pt], g'))
         else sample_loop is current_date base_price (data_points, g))"

definition create_sample_data :: "'s \<Rightarrow> 'p \<Rightarrow> world \<Rightarrow> ('s, 'p) sample_data \<times> world" where
  "create_sample_data symbol period w =
     (case randint (- 20) 20 (random_state w) of (r, g0) \<Rightarrow>
        (let base_price = 100 + r;
             current_date = minus_days (datetime_now w) 365
         in case sample_loop [0..<250] current_date base_price ([], g0) of
              (data_points, g') \<Rightarrow>
                (\<lparr>sd_symbol = symbol, sd_period = period, sd_data = data_points\<rparr>,
                 w\<lparr>random_state := g'\<rparr>)))"

section \<open>Configuration (\<open>config.py\<close>)\<close>

record config =
  MCP_SERVER_URL :: string
  MCP_API_KEY :: string
  OPENAI_API_KEY :: string
  DEFAULT_MODEL :: string
  SUPPORTED_PERIODS :: "string list"
  DEFAULT_PERIOD :: string

definition getenv :: "(string \<rightharpoonup> string) \<Rightarrow> string \<Rightarrow> string \<Rightarrow> string" where
  "getenv env name dflt = (case env name of None \<Rightarrow> dflt | Some v \<Rightarrow> v)"

definition Config :: "(string \<rightharpoonup> string) \<Rightarrow> config" where
  "Config env =
     \<lparr>MCP_SERVER_URL = getenv env ''MCP_SERVER_URL'' ''mock'',
      MCP_API_KEY = getenv env ''MCP_API_KEY'' ''demo-key'',
      OPENAI_API_KEY = getenv env ''OPENAI_API_KEY'' [],
      DEFAULT_MODEL = ''gpt-4'',
      SUPPORTED_PERIODS = [''1d'', ''1w'', ''1m'', ''3m'', ''6m'', ''1y'', ''2y'', ''5y''],
      DEFAULT_PERIOD = ''1y''\<rparr>"

section \<open>The data model the modules share\<close>

text \<open>
  Modelled from the spec: the module \<open>src/models/schemas.py\<close> is not among the sources.
  \<open>TimePeriod\<close> is the enumeration of the eight accepted codes; constructing it from any
  other string fails (Python's enumerations raise \<open>ValueError\<close>). \<open>StockRequest\<close> is
  the record of symbol, period and two optional ISO date strings.
\<close>

datatype time_period = P1d | P1w | P1m | P3m | P6m | P1y | P2y | P5y

fun period_value :: "time_period \<Rightarrow> string" where
  "period_value P1d = ''1d''"
| "period_value P1w = ''1w''"
| "period_value P1m = ''1m''"
| "period_value P3m = ''3m''"
| "period_value P6m = ''6m''"
| "period_value P1y = ''1y''"
| "period_value P2y = ''2y''"
| "period_value P5y = ''5y''"

definition quoted :: "string \<Rightarrow> string" where
  "quoted s = [CHR 0x27] @ s @ [CHR 0x27]"

definition TimePeriod :: "string \<Rightarrow> py_exn + time_period" where
  "TimePeriod s =
     (case filter (\<lambda>p. period_value p = s) [P1d, P1w, P1m, P3m, P6m, P1y, P2y, P5y] of
        p # _ \<Rightarrow> Inr p
      | [] \<Rightarrow> Inl (Raised ValueError (quoted s @ '' is not a valid TimePeriod'')))"

record stock_request =
  req_symbol :: string
  req_period :: time_period
  req_start_date :: "string option"
  req_end_date :: "string option"

text \<open>
  The pipeline execution state, a dictionary with the five keys below. The repository
  reads it through \<^verbatim>\<open>.get\<close> only (and through \<^verbatim>\<open>result['error']\<close> once \<^verbatim>\<open>.get\<close> has
  found a message there), so a key that is absent and a key bound to \<open>None\<close> read the
  same: both are \<open>None\<close> here. The payloads and the analysis result are values of classes
  that are not among the sources; they are type parameters.
\<close>

record ('r, 'p, 'a) graph_state =
  st_stock_request :: "stock_request option"
  st_raw_data :: "'r option"
  st_processed_data :: "'p option"
  st_analysis_result :: "'a option"
  st_error :: "string option"

text \<open>The dictionary \<^verbatim>\<open>{"error": msg}\<close>.\<close>

definition error_only :: "string \<Rightarrow> ('r, 'p, 'a) graph_state" where
  "error_only msg =
     \<lparr>st_stock_request = None, st_raw_data = None, st_processed_data = None,
      st_analysis_result = None, st_error = Some msg\<rparr>"

text \<open>Truth value of an optional string: \<open>None\<close> and the empty string are false.\<close>

fun truthy_str :: "string option \<Rightarrow> bool" where
  "truthy_str None = False"
| "truthy_str (Some s) = (s \<noteq> [])"

section \<open>The report formatter (\<open>src/utils/helpers.py\<close>)\<close>

text \<open>
  The first parameter is the body of the report, the lines the function joins once it
  holds an analysis result: it reads the fields of \<open>StockAnalysis\<close> and formats floats,
  and may raise on a value of another shape.
\<close>

definition format_analysis_output ::
  "('a \<Rightarrow> py_exn + string) \<Rightarrow> ('r, 'p, 'a) graph_state \<Rightarrow> py_exn + string" where
  "format_analysis_output report result =
     (if truthy_str (st_error result) then Inr (''Error: '' @ the (st_error result))
      else case st_analysis_result result of
             None \<Rightarrow> Inr ''No analysis result available''
           | Some analysis \<Rightarrow> report analysis)"

section \<open>The orchestrator (\<open>src/main.py\<close>)\<close>

text \<open>
  The compiled graph is not among the sources: \<open>ainvoke\<close> is a parameter, a function
  from the initial state to the terminal state or to the exception it raises.
  \<open>str_upper\<close> is \<^verbatim>\<open>str.upper\<close>.
\<close>

definition initial_state ::
  "string \<Rightarrow> time_period \<Rightarrow> string option \<Rightarrow> string option \<Rightarrow> ('r, 'p, 'a) graph_state" where
  "initial_state symbol_upper p start_date end_date =
     (let stock_request =
            \<lparr>req_symbol = symbol_upper, req_period = p,
             req_start_date = start_date, req_end_date = end_date\<rparr>
      in \<lparr>st_stock_request = Some stock_request, st_raw_data = None, st_processed_data = None,
          st_analysis_result = None, st_error = None\<rparr>)"

text \<open>The body of the \<^verbatim>\<open>try\<close> block of \<open>analyze_stock\<close>.\<close>

definition analyze_stock_body ::
  "(string \<Rightarrow> string) \<Rightarrow>
   (('r, 'p, 'a) graph_state \<Rightarrow> py_exn + ('r, 'p, 'a) graph_state) \<Rightarrow>
   string \<Rightarrow> string \<Rightarrow> string option \<Rightarrow> string option \<Rightarrow> py_exn + ('r, 'p, 'a) graph_state" where
  "analyze_stock_body str_upper ainvoke symbol period start_date end_date =
     (let symbol_upper = str_upper symbol
      in case TimePeriod period of
           Inl e \<Rightarrow> Inl e
         | Inr p \<Rightarrow> ainvoke (initial_state symbol_upper p start_date end_date))"

definition analyze_stock ::
  "(string \<Rightarrow> string) \<Rightarrow>
   (('r, 'p, 'a) graph_state \<Rightarrow> py_exn + ('r, 'p, 'a) graph_state) \<Rightarrow>
   string \<Rightarrow> string \<Rightarrow> string option \<Rightarrow> string option \<Rightarrow> py_exn + ('r, 'p, 'a) graph_state" where
  "analyze_stock str_upper ainvoke symbol period start_date end_date =
     (case analyze_stock_body str_upper ainvoke symbol period start_date end_date of
        Inr result \<Rightarrow> Inr result
      | Inl e \<Rightarrow>
          if is_Exception (exn_cls e) then Inr (error_only (''Analysis failed: '' @ exn_str e))
          else Inl e)"

definition format_output ::
  "('a \<Rightarrow> py_exn + string) \<Rightarrow> ('r, 'p, 'a) graph_state \<Rightarrow> py_exn + string" where
  "format_output report result = format_analysis_output report result"

section \<open>The market-data client (\<open>src/mcp/vantage_client.py\<close>)\<close>

subsection \<open>Evaluating the module\<close>

text \<open>
  What importing a module does with names. A statement binds names and looks names up
  while it is executed: an import binds, a function definition evaluates the annotations
  of its signature (left to right, the return annotation last) and binds the function's
  name without running its body, a class definition executes its body in a namespace of
  its own and then binds the class's name, an assignment evaluates its right-hand side
  and binds its target. A name is looked up in the current namespace, then in the
  enclosing ones; a name found nowhere raises \<open>NameError\<close>.
\<close>

datatype stmt =
    Import "string list"
  | FunctionDef string "string list"
  | ClassDef string "stmt list"
  | Assign string "string list"

definition name_error :: "string \<Rightarrow> py_exn" where
  "name_error n = Raised NameError (''name '' @ quoted n @ '' is not defined'')"

fun lookup_names :: "string list \<Rightarrow> string list \<Rightarrow> py_exn + unit" where
  "lookup_names scope [] = Inr ()"
| "lookup_names scope (n # ns) =
     (if n \<in> set scope then lookup_names scope ns else Inl (name_error n))"

fun exec_stmt :: "string list \<Rightarrow> string list \<Rightarrow> stmt \<Rightarrow> py_exn + string list"
  and exec_block :: "string list \<Rightarrow> string list \<Rightarrow> stmt list \<Rightarrow> py_exn + string list" where
  "exec_stmt outer ns (Import names) = Inr (names @ ns)"
| "exec_stmt outer ns (FunctionDef f annotations) =
     (case lookup_names (ns @ outer) annotations of
        Inl e \<Rightarrow> Inl e
      | Inr _ \<Rightarrow> Inr (f # ns))"
| "exec_stmt outer ns (ClassDef c body) =
     (case exec_block (ns @ outer) [] body of
        Inl e \<Rightarrow> Inl e
      | Inr _ \<Rightarrow> Inr (c # ns))"
| "exec_stmt outer ns (Assign x used) =
     (case lookup_names (ns @ outer) used of
        Inl e \<Rightarrow> Inl e
      | Inr _ \<Rightarrow> Inr (x # ns))"
| "exec_block outer ns [] = Inr ns"
| "exec_block outer ns (s # ss) =
     (case exec_stmt outer ns s of
        Inl e \<Rightarrow> Inl e
      | Inr ns' \<Rightarrow> exec_block outer ns' ss)"

text \<open>
  The names of the built-in namespace that the repository's modules mention. The
  built-in namespace has \<open>list\<close> and no \<open>List\<close>.
\<close>

definition builtins :: "string list" where
  "builtins =
     [''str'', ''int'', ''float'', ''bool'', ''list'', ''dict'', ''len'', ''sum'', ''max'',
      ''min'', ''round'', ''range'', ''print'', ''Exception'', ''None'', ''True'', ''False'']"

text \<open>The statements of the client module, in the order of the file.\<close>

definition vantage_client_imports :: "stmt list" where
  "vantage_client_imports =
     [Import [''requests''],
      Import [''json''],
      Import [''Dict'', ''Any'', ''Optional''],
      Import [''asyncio''],
      Import [''StockRequest'', ''StockDataPoint''],
      Import [''config''],
      Import [''create_sample_data'']]"

definition VantageMCPServer_class :: stmt where
  "VantageMCPServer_class =
     ClassDef ''VantageMCPServer''
       [FunctionDef ''__init__'' [],
        FunctionDef ''get_stock_data'' [''StockRequest'', ''Dict'', ''str'', ''Any''],
        FunctionDef ''get_technical_indicators''
          [''str'', ''List'', ''StockDataPoint'', ''Dict'', ''str'', ''Any'']]"

definition vantage_client_module :: "stmt list" where
  "vantage_client_module =
     vantage_client_imports @
     [VantageMCPServer_class, Assign ''vantage_client'' [''VantageMCPServer'']]"

text \<open>Importing a module: its statements run in a fresh global namespace.\<close>

definition import_module :: "stmt list \<Rightarrow> py_exn + string list" where
  "import_module m = exec_block builtins [] m"

subsection \<open>The client\<close>

record vantage_server =
  base_url :: string
  headers :: "(string \<times> string) list"
  use_mock_data :: bool

definition VantageMCPServer :: "config \<Rightarrow> vantage_server" where
  "VantageMCPServer cfg =
     \<lparr>base_url = MCP_SERVER_URL cfg,
      headers = [(''Content-Type'', ''application/json''),
                 (''Authorization'', ''Bearer '' @ MCP_API_KEY cfg)],
      use_mock_data = (MCP_SERVER_URL cfg = ''mock'')\<rparr>"

text \<open>
  The provider is the environment: \<open>post\<close> maps a request to the response received or
  to the exception \<^verbatim>\<open>requests.post\<close> raises. A response carries its status and what
  \<^verbatim>\<open>response.json()\<close> yields, the parsed body or the exception of a body that does not
  parse. \<^verbatim>\<open>asyncio.sleep(1)\<close> lets one second of the clock pass.
\<close>

record 'j http_response =
  status_code :: int
  json :: "py_exn + 'j"

datatype 'j stock_payload = Synthetic "(string, time_period) sample_data" | Provider 'j

definition asyncio_sleep :: "nat \<Rightarrow> world \<Rightarrow> world" where
  "asyncio_sleep n w = w\<lparr>clock := clock w + n\<rparr>"

definition print :: "string \<Rightarrow> world \<Rightarrow> world" where
  "print line w = w\<lparr>stdout := stdout w @ [line]\<rparr>"

definition requests_post ::
  "(http_request \<Rightarrow> py_exn + 'j http_response) \<Rightarrow> http_request \<Rightarrow> world \<Rightarrow>
   (py_exn + 'j http_response) \<times> world" where
  "requests_post post rq w = (post rq, w\<lparr>http_log := http_log w @ [rq]\<rparr>)"

definition mock_data :: "stock_request \<Rightarrow> world \<Rightarrow> (py_exn + 'j stock_payload) \<times> world" where
  "mock_data stock_request w =
     (case create_sample_data (req_symbol stock_request) (req_period stock_request) w of
        (d, w') \<Rightarrow> (Inr (Synthetic d), w'))"

text \<open>The request \<open>get_stock_data\<close> posts in live mode.\<close>

definition stock_data_request :: "vantage_server \<Rightarrow> stock_request \<Rightarrow> http_request" where
  "stock_data_request self stock_request =
     \<lparr>url = base_url self @ ''/stock/data'',
      sent_headers = headers self,
      json_symbol = req_symbol stock_request,
      json_period = period_value (req_period stock_request),
      json_start_date = req_start_date stock_request,
      json_end_date = req_end_date stock_request,
      timeout = 30\<rparr>"

text \<open>The body of the \<^verbatim>\<open>try\<close> block of \<open>get_stock_data\<close>.\<close>

definition get_stock_data_try ::
  "vantage_server \<Rightarrow> (http_request \<Rightarrow> py_exn + 'j http_response) \<Rightarrow> stock_request \<Rightarrow> world \<Rightarrow>
   (py_exn + 'j stock_payload) \<times> world" where
  "get_stock_data_try self post stock_request w =
     (case requests_post post (stock_data_request self stock_request) w of
        (Inl e, w1) \<Rightarrow> (Inl e, w1)
      | (Inr response, w1) \<Rightarrow>
          if status_code response = 200
          then (case json response of
                  Inl e \<Rightarrow> (Inl e, w1)
                | Inr body \<Rightarrow> (Inr (Provider body), w1))
          else mock_data stock_request
                 (print (''MCP Server error, using mock data: ''
                           @ str_of_int (status_code response)) w1))"

definition get_stock_data ::
  "vantage_server \<Rightarrow> (http_request \<Rightarrow> py_exn + 'j http_response) \<Rightarrow> stock_request \<Rightarrow> world \<Rightarrow>
   (py_exn + 'j stock_payload) \<times> world" where
  "get_stock_data self post stock_request w =
     (if use_mock_data self then mock_data stock_request (asyncio_sleep 1 w)
      else case get_stock_data_try self post stock_request w of
             (Inr r, w1) \<Rightarrow> (Inr r, w1)
           | (Inl e, w1) \<Rightarrow>
               if is_RequestException (exn_cls e)
               then mock_data stock_request
                      (print (''MCP Server connection failed, using mock data: '' @ exn_str e) w1)
               else (Inl e, w1))"

section \<open>The dashboard (\<open>app.py\<close>)\<close>

text \<open>
  One run of the script. The widget values of the run are its input; what the run shows
  and does is a list of events: the error banners, the call of the orchestrator, the
  rendering of a result and the staging of a quick symbol. Titles, separators and the help
  panel read no input and are left out.
\<close>

datatype period_label = Day1 | Week1 | Month1 | Months3 | Months6 | Year1 | Years2 | Years5

fun period_options :: "period_label \<Rightarrow> string" where
  "period_options Day1 = ''1d''"
| "period_options Week1 = ''1w''"
| "period_options Month1 = ''1m''"
| "period_options Months3 = ''3m''"
| "period_options Months6 = ''6m''"
| "period_options Year1 = ''1y''"
| "period_options Years2 = ''2y''"
| "period_options Years5 = ''5y''"

record ui_input =
  symbol_text :: string
  selected_period :: period_label
  use_custom_dates :: bool
  start_date_input :: "int option"
  end_date_input :: "int option"
  show_technical_box :: bool
  show_volume_box :: bool
  detailed_analysis_box :: bool
  analyze_button :: bool
  amzn_button :: bool
  aapl_button :: bool

datatype ui_event =
    SidebarError string
  | StError string
  | AnalyzeStock string string "string option" "string option"
  | RenderResult bool bool
  | QuickSymbol string

text \<open>
  The two tuples \<open>setup_sidebar\<close> returns: four \<open>None\<close>s where the dates are rejected,
  the seven settings otherwise. Dates are ordinals, \<open>None\<close> where no date was picked.
\<close>

datatype sidebar_tuple =
    Tuple4
  | Tuple7 string string "int option" "int option" bool bool bool

fun tuple_len :: "sidebar_tuple \<Rightarrow> nat" where
  "tuple_len Tuple4 = 4"
| "tuple_len (Tuple7 a b c d e f g) = 7"

definition setup_sidebar ::
  "(string \<Rightarrow> string) \<Rightarrow> ui_input \<Rightarrow> sidebar_tuple \<times> ui_event list" where
  "setup_sidebar str_upper inp =
     (let symbol = str_upper (symbol_text inp);
          period = period_options (selected_period inp);
          start_date = (if use_custom_dates inp then start_date_input inp else None);
          end_date = (if use_custom_dates inp then end_date_input inp else None);
          settings = Tuple7 symbol period start_date end_date (show_technical_box inp)
                       (show_volume_box inp) (detailed_analysis_box inp)
      in if use_custom_dates inp
         then (case (start_date, end_date) of
                 (Some s, Some e) \<Rightarrow>
                   if s \<ge> e then (Tuple4, [SidebarError ''Start date must be before end date''])
                   else (settings, [])
               | _ \<Rightarrow> (settings, []))
         else (settings, []))"

text \<open>
  \<open>run_analysis\<close>: the orchestrator is called with the dates in ISO form; an exception of
  class \<open>Exception\<close> becomes an error banner and the result \<open>None\<close>.
\<close>

definition run_analysis ::
  "(string \<Rightarrow> string \<Rightarrow> string option \<Rightarrow> string option \<Rightarrow> py_exn + ('r, 'p, 'a) graph_state) \<Rightarrow>
   string \<Rightarrow> string \<Rightarrow> int option \<Rightarrow> int option \<Rightarrow>
   (py_exn + ('r, 'p, 'a) graph_state option) \<times> ui_event list" where
  "run_analysis analyze symbol period start_date end_date =
     (let start_iso = map_option iso_date start_date;
          end_iso = map_option iso_date end_date;
          called = AnalyzeStock symbol period start_iso end_iso
      in case analyze symbol period start_iso end_iso of
           Inr result \<Rightarrow> (Inr (Some result), [called])
         | Inl e \<Rightarrow>
             if is_Exception (exn_cls e)
             then (Inr None, [called, StError (''Analysis failed: '' @ exn_str e)])
             else (Inl e, [called]))"

text \<open>What the run shows for the result of \<open>run_analysis\<close>.\<close>

definition show_result ::
  "('r, 'p, 'a) graph_state option \<Rightarrow> bool \<Rightarrow> bool \<Rightarrow> ui_event list" where
  "show_result result show_volume detailed_analysis =
     (case result of
        None \<Rightarrow> [StError (''Analysis failed: '' @ ''Analysis failed'')]
      | Some r \<Rightarrow>
          if \<not> truthy_str (st_error r)
          then (case st_analysis_result r of
                  Some analysis_result \<Rightarrow> [RenderResult show_volume detailed_analysis]
                | None \<Rightarrow> [StError ''No analysis results available''])
          else [StError (''Analysis failed: '' @ the (st_error r))])"

definition quick_buttons :: "ui_input \<Rightarrow> ui_event list" where
  "quick_buttons inp =
     (if amzn_button inp then [QuickSymbol ''AMZN''] else []) @
     (if aapl_button inp then [QuickSymbol ''AAPL''] else [])"

text \<open>
  \<open>run\<close> unpacks the tuple of \<open>setup_sidebar\<close> into seven names; unpacking a tuple of
  another length raises \<open>ValueError\<close>.
\<close>

definition unpack_error :: "nat \<Rightarrow> nat \<Rightarrow> py_exn" where
  "unpack_error expected got =
     Raised ValueError
       (if got < expected
        then ''not enough values to unpack (expected '' @ str_of_int (int expected)
               @ '', got '' @ str_of_int (int got) @ '')''
        else ''too many values to unpack (expected '' @ str_of_int (int expected) @ '')'')"

definition run ::
  "(string \<Rightarrow> string) \<Rightarrow>
   (string \<Rightarrow> string \<Rightarrow> string option \<Rightarrow> string option \<Rightarrow> py_exn + ('r, 'p, 'a) graph_state) \<Rightarrow>
   ui_input \<Rightarrow> (py_exn + unit) \<times> ui_event list" where
  "run str_upper analyze inp =
     (case setup_sidebar str_upper inp of
        (t, ev) \<Rightarrow>
          (case t of
             Tuple7 symbol period start_date end_date show_technical show_volume detailed_analysis \<Rightarrow>
               if analyze_button inp
               then (if symbol \<noteq> []
                     then (case run_analysis analyze symbol period start_date end_date of
                             (Inl e, ev') \<Rightarrow> (Inl e, ev @ ev')
                           | (Inr result, ev') \<Rightarrow>
                               (Inr (), ev @ ev' @ show_result result show_volume detailed_analysis
                                          @ quick_buttons inp))
                     else (Inr (), ev @ [StError ''Please enter a stock symbol''] @ quick_buttons inp))
               else (Inr (), ev @ quick_buttons inp)
           | _ \<Rightarrow> (Inl (unpack_error 7 (tuple_len t)), ev)))"

text \<open>Whether a run called the orchestrator.\<close>

fun is_analyze_event :: "ui_event \<Rightarrow> bool" where
  "is_analyze_event (AnalyzeStock s p a b) = True"
| "is_analyze_event e = False"

section \<open>The launcher (\<open>run_app.py\<close>)\<close>

text \<open>
  \<^verbatim>\<open>subprocess.run\<close> is the environment: \<open>spawn\<close> maps a command line to the exit status
  of the child once it has terminated, or to the exception raised when the child cannot
  be started. \<open>main\<close> drops the completed process and returns \<open>None\<close>. The interpreter
  exits with status 0 when the script ends and with status 1 when an exception escapes;
  the commands spawned are kept.
\<close>

definition main :: "string \<Rightarrow> (string list \<Rightarrow> py_exn + int) \<Rightarrow> (py_exn + unit) \<times> string list list" where
  "main executable spawn =
     (let cmd = [executable, ''-m'', ''streamlit'', ''run'', ''app.py'']
      in case spawn cmd of
           Inl e \<Rightarrow> (Inl e, [cmd])
         | Inr completed \<Rightarrow> (Inr (), [cmd]))"

definition run_app :: "string \<Rightarrow> (string list \<Rightarrow> py_exn + int) \<Rightarrow> int \<times> string list list" where
  "run_app executable spawn =
     (case main executable spawn of
        (Inr u, spawned) \<Rightarrow> (0, spawned)
      | (Inl e, spawned) \<Rightarrow> (1, spawned))"

section \<open>Predicates and inputs the theorems are stated with\<close>

text \<open>The invariant of a generated point: price ordering and volume range.\<close>

definition point_ok :: "data_point \<Rightarrow> bool" where
  "point_ok pt \<longleftrightarrow>
     max (pt_open pt) (pt_close pt) \<le> pt_high pt \<and>
     pt_low pt \<le> min (pt_open pt) (pt_close pt) \<and>
     1000000 \<le> pt_volume pt \<and> pt_volume pt \<le> 5000000"

text \<open>
  A world to run on: midnight of 2024-01-01 (a Monday, 19723 days after 1970-01-01), a
  tape whose first draw is 0 and whose later draws are all 40, nothing requested and
  nothing printed yet.
\<close>

definition demo_tape :: "nat \<Rightarrow> nat" where
  "demo_tape i = (if i = 0 then 0 else 40)"

definition demo_world :: world where
  "demo_world =
     \<lparr>clock = 1704067200, random_state = \<lparr>tape = demo_tape, pos = 0\<rparr>,
      http_log = [], stdout = []\<rparr>"

section \<open>Rounding and the random source\<close>

lemma round_half_even_bounds: "\<lfloor>x\<rfloor> \<le> round_half_even x \<and> round_half_even x \<le> \<lfloor>x\<rfloor> + 1"
  by (simp add: round_half_even_def Let_def)

lemma round_half_even_mono:
  assumes "x \<le> y"
  shows "round_half_even x \<le> round_half_even y"
proof (cases "\<lfloor>x\<rfloor> = \<lfloor>y\<rfloor>")
  case True
  with assms show ?thesis
    by (auto simp: round_half_even_def Let_def)
next
  case False
  with assms have "\<lfloor>x\<rfloor> + 1 \<le> \<lfloor>y\<rfloor>"
    using floor_mono [of x y] by linarith
  with round_half_even_bounds [of x] round_half_even_bounds [of y] show ?thesis
    by linarith
qed

lemma round2_mono: "x \<le> y \<Longrightarrow> round2 x \<le> round2 y"
  unfolding round2_def
  by (intro divide_right_mono) (simp_all add: round_half_even_mono mult_right_mono)

lemma round2_max: "round2 (max x y) = max (round2 x) (round2 y)"
  using round2_mono [of x y] round2_mono [of y x] by (cases "x \<le> y") (auto simp: max_def)

lemma round2_min: "round2 (min x y) = min (round2 x) (round2 y)"
  using round2_mono [of x y] round2_mono [of y x] by (cases "x \<le> y") (auto simp: min_def)

lemma uniform_nonneg: "0 \<le> a \<Longrightarrow> a \<le> b \<Longrightarrow> 0 \<le> fst (uniform a b g)"
  by (simp add: uniform_def random_unit_def next_raw_def)

lemma randint_range: "a \<le> b \<Longrightarrow> a \<le> fst (randint a b g) \<and> fst (randint a b g) \<le> b"
proof -
  assume ab: "a \<le> b"
  have "tape g (pos g) mod nat (b - a + 1) < nat (b - a + 1)"
    using ab by (intro mod_less_divisor) simp
  then have "int (tape g (pos g) mod nat (b - a + 1)) < b - a + 1"
    using ab by linarith
  then show ?thesis
    by (simp add: randint_def next_raw_def)
qed

section \<open>The generator keeps its invariant\<close>

lemma sample_point_ok: "point_ok (fst (sample_point date base_price g))"
proof -
  obtain u1 g1 where u1: "uniform (- 2) 2 g = (u1, g1)" by (cases "uniform (- 2) 2 g")
  obtain u2 g2 where u2: "uniform (- 5) 5 g1 = (u2, g2)" by (cases "uniform (- 5) 5 g1")
  obtain u3 g3 where u3: "uniform 0 3 g2 = (u3, g3)" by (cases "uniform 0 3 g2")
  obtain u4 g4 where u4: "uniform 0 3 g3 = (u4, g4)" by (cases "uniform 0 3 g3")
  obtain v g5 where v: "randint 1000000 5000000 g4 = (v, g5)" by (cases "randint 1000000 5000000 g4")
  have p3: "0 \<le> u3" using uniform_nonneg [of 0 3 g2] u3 by simp
  have p4: "0 \<le> u4" using uniform_nonneg [of 0 3 g3] u4 by simp
  have pv: "1000000 \<le> v \<and> v \<le> 5000000" using randint_range [of 1000000 5000000 g4] v by simp
  define op where "op = of_int base_price + u1"
  define cl where "cl = op + u2"
  have "max op cl \<le> max op cl + u3" using p3 by linarith
  from round2_mono [OF this]
  have hi: "max (round2 op) (round2 cl) \<le> round2 (max op cl + u3)"
    by (simp only: round2_max)
  have "min op cl - u4 \<le> min op cl" using p4 by linarith
  from round2_mono [OF this]
  have lo: "round2 (min op cl - u4) \<le> min (round2 op) (round2 cl)"
    by (simp only: round2_min)
  show ?thesis
    using hi lo pv
    by (simp add: sample_point_def u1 u2 u3 u4 v point_ok_def Let_def op_def cl_def)
qed

lemma sample_loop_ok:
  "\<forall>pt \<in> set pts. point_ok pt \<Longrightarrow>
   \<forall>pt \<in> set (fst (sample_loop is cur base (pts, g))). point_ok pt"
proof (induction "is" arbitrary: pts g)
  case Nil
  then show ?case by simp
next
  case (Cons i "is")
  show ?case
  proof (cases "weekday (plus_days cur (int i)) < 5")
    case True
    obtain pt g' where sp: "sample_point (plus_days cur (int i)) base g = (pt, g')"
      by (cases "sample_point (plus_days cur (int i)) base g")
    have "point_ok pt" using sample_point_ok [of "plus_days cur (int i)" base g] sp by simp
    with Cons.prems have "\<forall>q \<in> set (pts @ [pt]). point_ok q" by auto
    from Cons.IH [OF this] show ?thesis using True sp by (simp add: Let_def)
  next
    case False
    with Cons.IH [OF Cons.prems] show ?thesis by (simp add: Let_def)
  qed
qed

lemma sample_loop_length:
  "length pts \<le> length (fst (sample_loop is cur base (pts, g)))"
proof (induction "is" arbitrary: pts g)
  case Nil
  then show ?case by simp
next
  case (Cons i "is")
  show ?case
  proof (cases "weekday (plus_days cur (int i)) < 5")
    case True
    obtain pt g' where sp: "sample_point (plus_days cur (int i)) base g = (pt, g')"
      by (cases "sample_point (plus_days cur (int i)) base g")
    from Cons.IH [of "pts @ [pt]" g'] show ?thesis using True sp by (simp add: Let_def)
  next
    case False
    with Cons.IH [of pts g] show ?thesis by (simp add: Let_def)
  qed
qed

lemma sample_loop_grows:
  "i \<in> set is \<Longrightarrow> weekday (plus_days cur (int i)) < 5 \<Longrightarrow>
   length pts < length (fst (sample_loop is cur base (pts, g)))"
proof (induction "is" arbitrary: pts g)
  case Nil
  then show ?case by simp
next
  case (Cons j "is")
  show ?case
  proof (cases "weekday (plus_days cur (int j)) < 5")
    case True
    obtain pt g' where sp: "sample_point (plus_days cur (int j)) base g = (pt, g')"
      by (cases "sample_point (plus_days cur (int j)) base g")
    from sample_loop_length [of "pts @ [pt]" "is" cur base g'] show ?thesis
      using True sp by (simp add: Let_def)
  next
    case False
    with Cons.prems have "i \<in> set is" by auto
    from Cons.IH [OF this Cons.prems(2), of pts g] show ?thesis using False by (simp add: Let_def)
  qed
qed

lemma weekday_within_three_days:
  "weekday (plus_days d 0) < 5 \<or> weekday (plus_days d 1) < 5 \<or> weekday (plus_days d 2) < 5"
  unfolding weekday_def plus_days_def by simp presburger

lemma create_sample_data_nonempty: "sd_data (fst (create_sample_data symbol period w)) \<noteq> []"
proof -
  obtain r g0 where r: "randint (- 20) 20 (random_state w) = (r, g0)"
    by (cases "randint (- 20) 20 (random_state w)")
  define cur where "cur = minus_days (datetime_now w) 365"
  obtain pts g' where l: "sample_loop [0..<250] cur (100 + r) ([], g0) = (pts, g')"
    by (cases "sample_loop [0..<250] cur (100 + r) ([], g0)")
  from weekday_within_three_days [of cur]
  have "\<exists>i::nat. i < 3 \<and> weekday (plus_days cur (int i)) < 5"
  proof (elim disjE)
    assume "weekday (plus_days cur 0) < 5"
    then have "(0::nat) < 3 \<and> weekday (plus_days cur (int 0)) < 5" by simp
    then show ?thesis ..
  next
    assume "weekday (plus_days cur 1) < 5"
    then have "(1::nat) < 3 \<and> weekday (plus_days cur (int 1)) < 5" by simp
    then show ?thesis ..
  next
    assume "weekday (plus_days cur 2) < 5"
    then have "(2::nat) < 3 \<and> weekday (plus_days cur (int 2)) < 5" by simp
    then show ?thesis ..
  qed
  then obtain i :: nat where i: "i < 3" "weekday (plus_days cur (int i)) < 5" by blast
  then have "i \<in> set [0..<250]" by simp
  from sample_loop_grows [OF this i(2), of "[]" "100 + r" g0] l have "pts \<noteq> []" by auto
  with l show ?thesis
    unfolding cur_def by (simp add: create_sample_data_def r Let_def)
qed

section \<open>What the generator reads and writes\<close>

lemma round2_of_int: "round2 (of_int k) = of_int k"
proof -
  have "of_int k * (100::rat) = of_int (k * 100)" by simp
  then have "round_half_even (of_int k * 100) = k * 100"
    unfolding round_half_even_def by (simp only: floor_of_int Let_def) simp
  then show ?thesis by (simp add: round2_def)
qed

lemma uniform_range: "a \<le> b \<Longrightarrow> a \<le> fst (uniform a b g) \<and> fst (uniform a b g) \<le> b"
proof -
  assume ab: "a \<le> b"
  define u :: rat where "u = of_nat (tape g (pos g) mod 2 ^ 53) / 2 ^ 53"
  have "tape g (pos g) mod 2 ^ 53 < 2 ^ 53" by simp
  then have "(of_nat (tape g (pos g) mod 2 ^ 53) :: rat) < of_nat (2 ^ 53)"
    by (simp only: of_nat_less_iff)
  then have u1: "u \<le> 1" unfolding u_def by simp
  have u0: "0 \<le> u" unfolding u_def by simp
  have "0 \<le> (b - a) * u" using ab u0 by simp
  moreover have "(b - a) * u \<le> (b - a) * 1" using ab u1 by (intro mult_left_mono) simp_all
  moreover have "fst (uniform a b g) = a + (b - a) * u"
    by (simp add: uniform_def random_unit_def next_raw_def u_def)
  ultimately show ?thesis by simp
qed

lemma sample_point_open:
  "of_int base - 2 \<le> pt_open (fst (sample_point date base g)) \<and>
   pt_open (fst (sample_point date base g)) \<le> of_int base + 2"
proof -
  obtain u1 g1 where u1: "uniform (- 2) 2 g = (u1, g1)" by (cases "uniform (- 2) 2 g")
  have r: "- 2 \<le> u1 \<and> u1 \<le> 2" using uniform_range [of "- 2" 2 g] u1 by simp
  have o: "pt_open (fst (sample_point date base g)) = round2 (of_int base + u1)"
    by (simp add: sample_point_def u1 Let_def split: prod.splits)
  have e1: "round2 (of_int base - 2) = of_int base - 2"
    using round2_of_int [of "base - 2"] by simp
  have e2: "round2 (of_int base + 2) = of_int base + 2"
    using round2_of_int [of "base + 2"] by simp
  have "of_int base - 2 \<le> of_int base + u1" using r by simp
  from round2_mono [OF this] have lo: "of_int base - 2 \<le> round2 (of_int base + u1)"
    by (simp only: e1)
  have "of_int base + u1 \<le> of_int base + 2" using r by simp
  from round2_mono [OF this] have hi: "round2 (of_int base + u1) \<le> of_int base + 2"
    by (simp only: e2)
  from lo hi o show ?thesis by simp
qed

lemma sample_loop_invariant:
  assumes "\<forall>pt \<in> set pts. P pt" and "\<And>d g. P (fst (sample_point d base g))"
  shows "\<forall>pt \<in> set (fst (sample_loop is cur base (pts, g))). P pt"
  using assms(1)
proof (induction "is" arbitrary: pts g)
  case Nil
  then show ?case by simp
next
  case (Cons i "is")
  show ?case
  proof (cases "weekday (plus_days cur (int i)) < 5")
    case True
    obtain pt g' where sp: "sample_point (plus_days cur (int i)) base g = (pt, g')"
      by (cases "sample_point (plus_days cur (int i)) base g")
    have "P pt" using assms(2) [of "plus_days cur (int i)" g] sp by simp
    with Cons.prems have "\<forall>q \<in> set (pts @ [pt]). P q" by auto
    from Cons.IH [OF this] show ?thesis using True sp by (simp add: Let_def)
  next
    case False
    with Cons.IH [OF Cons.prems] show ?thesis by (simp add: Let_def)
  qed
qed

lemma create_sample_data_open:
  "\<forall>pt \<in> set (sd_data (fst (create_sample_data symbol period w))).
     of_int (100 + fst (randint (- 20) 20 (random_state w))) - 2 \<le> pt_open pt \<and>
     pt_open pt \<le> of_int (100 + fst (randint (- 20) 20 (random_state w))) + 2"
proof -
  obtain r g0 where r: "randint (- 20) 20 (random_state w) = (r, g0)"
    by (cases "randint (- 20) 20 (random_state w)")
  obtain pts g' where l:
    "sample_loop [0..<250] (minus_days (datetime_now w) 365) (100 + r) ([], g0) = (pts, g')"
    by (cases "sample_loop [0..<250] (minus_days (datetime_now w) 365) (100 + r) ([], g0)")
  have "\<forall>pt \<in> set (fst (sample_loop [0..<250] (minus_days (datetime_now w) 365) (100 + r) ([], g0))).
          of_int (100 + r) - 2 \<le> pt_open pt \<and> pt_open pt \<le> of_int (100 + r) + 2"
    by (rule sample_loop_invariant) (simp, rule sample_point_open)
  with l show ?thesis
    by (simp add: create_sample_data_def r Let_def)
qed

lemma sample_point_rng:
  "tape (snd (sample_point date base g)) = tape g \<and> pos (snd (sample_point date base g)) = pos g + 5"
  by (simp add: sample_point_def uniform_def random_unit_def randint_def next_raw_def Let_def)

lemma sample_loop_rng:
  "tape (snd (sample_loop is cur base (pts, g))) = tape g \<and>
   pos g \<le> pos (snd (sample_loop is cur base (pts, g)))"
proof (induction "is" arbitrary: pts g)
  case Nil
  then show ?case by simp
next
  case (Cons i "is")
  show ?case
  proof (cases "weekday (plus_days cur (int i)) < 5")
    case True
    obtain pt g' where sp: "sample_point (plus_days cur (int i)) base g = (pt, g')"
      by (cases "sample_point (plus_days cur (int i)) base g")
    have "tape g' = tape g \<and> pos g' = pos g + 5"
      using sample_point_rng [of "plus_days cur (int i)" base g] sp by simp
    with Cons.IH [of "pts @ [pt]" g'] show ?thesis using True sp by (simp add: Let_def)
  next
    case False
    with Cons.IH [of pts g] show ?thesis by (simp add: Let_def)
  qed
qed

lemma create_sample_data_world:
  "clock (snd (create_sample_data symbol period w)) = clock w \<and>
   http_log (snd (create_sample_data symbol period w)) = http_log w \<and>
   stdout (snd (create_sample_data symbol period w)) = stdout w \<and>
   tape (random_state (snd (create_sample_data symbol period w))) = tape (random_state w) \<and>
   pos (random_state w) < pos (random_state (snd (create_sample_data symbol period w)))"
proof -
  obtain r g0 where r: "randint (- 20) 20 (random_state w) = (r, g0)"
    by (cases "randint (- 20) 20 (random_state w)")
  have g0: "tape g0 = tape (random_state w) \<and> pos g0 = Suc (pos (random_state w))"
    using r by (auto simp: randint_def next_raw_def)
  obtain pts g' where l:
    "sample_loop [0..<250] (minus_days (datetime_now w) 365) (100 + r) ([], g0) = (pts, g')"
    by (cases "sample_loop [0..<250] (minus_days (datetime_now w) 365) (100 + r) ([], g0)")
  have "tape g' = tape g0 \<and> pos g0 \<le> pos g'"
    using sample_loop_rng [of "[0..<250]" "minus_days (datetime_now w) 365" "100 + r" "[]" g0] l
    by simp
  with g0 l show ?thesis
    by (simp add: create_sample_data_def r Let_def)
qed

section \<open>The dates the generator emits\<close>

lemma sample_point_date: "pt_date (fst (sample_point date base g)) = strftime_ymd date"
  by (simp add: sample_point_def Let_def split: prod.splits)

lemma sample_loop_dates:
  "map pt_date (fst (sample_loop is cur base (pts, g))) =
     map pt_date pts @
     map strftime_ymd (filter (\<lambda>d. weekday d < 5) (map (\<lambda>i. plus_days cur (int i)) is))"
proof (induction "is" arbitrary: pts g)
  case Nil
  then show ?case by simp
next
  case (Cons i "is")
  show ?case
  proof (cases "weekday (plus_days cur (int i)) < 5")
    case True
    obtain pt g' where sp: "sample_point (plus_days cur (int i)) base g = (pt, g')"
      by (cases "sample_point (plus_days cur (int i)) base g")
    have "pt_date pt = strftime_ymd (plus_days cur (int i))"
      using sample_point_date [of "plus_days cur (int i)" base g] sp by simp
    with Cons.IH [of "pts @ [pt]" g'] show ?thesis using True sp by (simp add: Let_def)
  next
    case False
    with Cons.IH [of pts g] show ?thesis by (simp add: Let_def)
  qed
qed

lemma create_sample_data_dates:
  "map pt_date (sd_data (fst (create_sample_data symbol period w))) =
     map strftime_ymd
       (filter (\<lambda>d. weekday d < 5)
          (map (\<lambda>i. plus_days (minus_days (datetime_now w) 365) (int i)) [0..<250]))"
proof -
  obtain r g0 where r: "randint (- 20) 20 (random_state w) = (r, g0)"
    by (cases "randint (- 20) 20 (random_state w)")
  obtain pts g' where l:
    "sample_loop [0..<250] (minus_days (datetime_now w) 365) (100 + r) ([], g0) = (pts, g')"
    by (cases "sample_loop [0..<250] (minus_days (datetime_now w) 365) (100 + r) ([], g0)")
  from sample_loop_dates [of "[0..<250]" "minus_days (datetime_now w) 365" "100 + r" "[]" g0] l
  show ?thesis
    by (simp add: create_sample_data_def r Let_def)
qed

lemma range_250: "[0..<250] = 0 # 1 # [2..<250]"
  using upt_conv_Cons [of 0 250] upt_conv_Cons [of "Suc 0" 250]
  by (simp del: upt_rec_numeral add: numeral_2_eq_2)

lemma demo_start: "minus_days (datetime_now demo_world) 365 = \<lparr>ordinal = 738521, second_of_day = 0\<rparr>"
  by (simp add: datetime_now_def demo_world_def minus_days_def)

lemma demo_kept_days:
  "length (filter (\<lambda>d. weekday d < 5)
      (map (\<lambda>i. plus_days \<lparr>ordinal = 738521, second_of_day = 0\<rparr> (int i)) [0..<250])) = 179 \<and>
   hd (filter (\<lambda>d. weekday d < 5)
      (map (\<lambda>i. plus_days \<lparr>ordinal = 738521, second_of_day = 0\<rparr> (int i)) [0..<250]))
     = \<lparr>ordinal = 738522, second_of_day = 0\<rparr> \<and>
   last (filter (\<lambda>d. weekday d < 5)
      (map (\<lambda>i. plus_days \<lparr>ordinal = 738521, second_of_day = 0\<rparr> (int i)) [0..<250]))
     = \<lparr>ordinal = 738770, second_of_day = 0\<rparr>"
  by (simp add: weekday_def plus_days_def range_250)

lemma demo_iso_dates:
  "iso_date 738886 = ''2024-01-01''" "iso_date 738522 = ''2023-01-02''"
  "iso_date 738770 = ''2023-09-07''"
  by code_simp+

section \<open>Facts about the other modules\<close>

lemma TimePeriod_raises_ValueError: "TimePeriod s = Inl e \<Longrightarrow> exn_cls e = ValueError"
  by (auto simp: TimePeriod_def split: list.splits)

lemma unpack_error_7_4:
  "unpack_error 7 4 = Raised ValueError ''not enough values to unpack (expected 7, got 4)''"
  by code_simp

lemma create_sample_data_cong:
  "clock w = clock w' \<Longrightarrow> random_state w = random_state w' \<Longrightarrow>
   fst (create_sample_data symbol period w) = fst (create_sample_data symbol period w')"
  by (auto simp: create_sample_data_def datetime_now_def Let_def split: prod.splits)

lemma mock_data_result:
  "mock_data stock_request w =
     (Inr (Synthetic (fst (create_sample_data (req_symbol stock_request) (req_period stock_request) w))),
      snd (create_sample_data (req_symbol stock_request) (req_period stock_request) w))"
  by (simp add: mock_data_def split: prod.splits)

section \<open>The claims\<close>

text \<open>
  C1. Evaluating the definitions of the market-data client module fails. The imports
  succeed and bind \<open>Dict\<close>, \<open>Any\<close> and \<open>Optional\<close> but no \<open>List\<close>; the
  built-in namespace has no \<open>List\<close> either; the signature of
  \<open>get_technical_indicators\<close> evaluates the name, so the class statement raises
  \<open>NameError\<close>, the module yields no namespace, and neither method of the client
  can be called. Annotations are evaluated when the function is defined, as every Python
  before 3.14 does without \<^verbatim>\<open>from __future__ import annotations\<close>.
\<close>

theorem vantage_client_module_raises_NameError: "import_module vantage_client_imports
     = Inr [''create_sample_data'', ''config'', ''StockRequest'', ''StockDataPoint'', ''asyncio'',
            ''Dict'', ''Any'', ''Optional'', ''json'', ''requests''] \<and>
   ''List'' \<notin> set builtins \<and>
   import_module vantage_client_module = Inl (name_error ''List'')"
  by (simp add: import_module_def vantage_client_module_def vantage_client_imports_def
      VantageMCPServer_class_def builtins_def)

text \<open>
  C2, as stated, fails. Claim: the orchestrator's analyze operation never propagates an
  exception. Its handler is \<^verbatim>\<open>except Exception\<close>; a pipeline interrupted by
  \<open>KeyboardInterrupt\<close> raises outside that hierarchy and the exception leaves
  \<open>analyze_stock\<close>.
\<close>

theorem analyze_stock_propagates_KeyboardInterrupt:
  "analyze_stock ascii_upper
     (\<lambda>s::(unit, unit, unit) graph_state. Inl (Raised KeyboardInterrupt []))
     ''AMZN'' ''1y'' None None = Inl (Raised KeyboardInterrupt [])"
  by (simp add: analyze_stock_def analyze_stock_body_def TimePeriod_def)

text \<open>
  C2, amended. For every symbol, period string and optional dates: when the period string
  is rejected, and when the pipeline raises an exception of class \<open>Exception\<close>, the
  result is the mapping whose only entry is the error
  \<open>Analysis failed: \<close> followed by the message; when the pipeline returns, the
  result is its terminal state; and when the pipeline raises an exception outside the
  \<open>Exception\<close> hierarchy (\<open>KeyboardInterrupt\<close>, \<open>SystemExit\<close>,
  \<open>CancelledError\<close>, \<open>GeneratorExit\<close>), that exception propagates. The pipeline
  receives the initial state built from the upper-cased symbol, whatever
  \<^verbatim>\<open>str.upper\<close> maps the symbol to.
\<close>

theorem analyze_stock_catches_Exception:
  "(\<forall>e. TimePeriod period = Inl e \<longrightarrow>
      analyze_stock str_upper ainvoke symbol period start_date end_date
        = Inr (error_only (''Analysis failed: '' @ exn_str e))) \<and>
   (\<forall>p e. TimePeriod period = Inr p \<and>
      ainvoke (initial_state (str_upper symbol) p start_date end_date) = Inl e \<and>
      is_Exception (exn_cls e) \<longrightarrow>
      analyze_stock str_upper ainvoke symbol period start_date end_date
        = Inr (error_only (''Analysis failed: '' @ exn_str e))) \<and>
   (\<forall>p result. TimePeriod period = Inr p \<and>
      ainvoke (initial_state (str_upper symbol) p start_date end_date) = Inr result \<longrightarrow>
      analyze_stock str_upper ainvoke symbol period start_date end_date = Inr result) \<and>
   (\<forall>p e. TimePeriod period = Inr p \<and>
      ainvoke (initial_state (str_upper symbol) p start_date end_date) = Inl e \<and>
      \<not> is_Exception (exn_cls e) \<longrightarrow>
      analyze_stock str_upper ainvoke symbol period start_date end_date = Inl e)"
  by (auto simp: analyze_stock_def analyze_stock_body_def Let_def
      dest: TimePeriod_raises_ValueError)

theorem analyze_stock_catches_Exception_witness:
  "analyze_stock ascii_upper (\<lambda>s::(unit, unit, unit) graph_state. Inr s)
       ''amzn'' ''9y'' None None
     = Inr (error_only (''Analysis failed: '' @ quoted ''9y'' @ '' is not a valid TimePeriod'')) \<and>
   analyze_stock ascii_upper
       (\<lambda>s::(unit, unit, unit) graph_state. Inl (Raised ValueError ''no data''))
       ''amzn'' ''1y'' None None
     = Inr (error_only ''Analysis failed: no data'') \<and>
   analyze_stock ascii_upper (\<lambda>s::(unit, unit, unit) graph_state. Inr s)
       ''amzn'' ''1y'' None None
     = Inr (initial_state ''AMZN'' P1y None None) \<and>
   analyze_stock ascii_upper
       (\<lambda>s::(unit, unit, unit) graph_state. Inl (Raised CancelledError ''cancelled''))
       ''amzn'' ''1y'' None None
     = Inl (Raised CancelledError ''cancelled'')"
proof -
  have t1: "TimePeriod ''9y'' = Inl (Raised ValueError (quoted ''9y'' @ '' is not a valid TimePeriod''))"
    by (simp add: TimePeriod_def)
  have t2: "TimePeriod ''1y'' = Inr P1y"
    by (simp add: TimePeriod_def)
  have u: "ascii_upper ''amzn'' = ''AMZN''"
    by code_simp
  have a: "analyze_stock ascii_upper (\<lambda>s::(unit, unit, unit) graph_state. Inr s)
       ''amzn'' ''9y'' None None
     = Inr (error_only (''Analysis failed: '' @ quoted ''9y'' @ '' is not a valid TimePeriod''))"
    using analyze_stock_catches_Exception
      [of "''9y''" ascii_upper "\<lambda>s::(unit, unit, unit) graph_state. Inr s" "''amzn''" None None] t1
    by simp
  have b: "analyze_stock ascii_upper
       (\<lambda>s::(unit, unit, unit) graph_state. Inl (Raised ValueError ''no data''))
       ''amzn'' ''1y'' None None = Inr (error_only ''Analysis failed: no data'')"
    using analyze_stock_catches_Exception
      [of "''1y''" ascii_upper
          "\<lambda>s::(unit, unit, unit) graph_state. Inl (Raised ValueError ''no data'')"
          "''amzn''" None None] t2
    by simp
  have c: "analyze_stock ascii_upper (\<lambda>s::(unit, unit, unit) graph_state. Inr s)
       ''amzn'' ''1y'' None None
     = Inr (initial_state ''AMZN'' P1y None None)"
    using analyze_stock_catches_Exception
      [of "''1y''" ascii_upper "\<lambda>s::(unit, unit, unit) graph_state. Inr s" "''amzn''" None None] t2 u
    by simp
  have d: "analyze_stock ascii_upper
       (\<lambda>s::(unit, unit, unit) graph_state. Inl (Raised CancelledError ''cancelled''))
       ''amzn'' ''1y'' None None
     = Inl (Raised CancelledError ''cancelled'')"
    using analyze_stock_catches_Exception
      [of "''1y''" ascii_upper
          "\<lambda>s::(unit, unit, unit) graph_state. Inl (Raised CancelledError ''cancelled'')"
          "''amzn''" None None] t2
    by simp
  from a b c d show ?thesis by simp
qed

text \<open>
  C3. When the configured provider URL is the sentinel \<open>mock\<close>, \<open>get_stock_data\<close>
  returns, for every request, the output of the synthetic generator for the request's
  symbol and period (generated after the simulated delay), issues no HTTP request, and
  the data list of that output is not empty.
\<close>

theorem get_stock_data_mock_mode:
  "MCP_SERVER_URL cfg = ''mock'' \<longrightarrow>
     fst (get_stock_data (VantageMCPServer cfg) post stock_request w)
       = Inr (Synthetic (fst (create_sample_data (req_symbol stock_request)
                                (req_period stock_request) (asyncio_sleep 1 w)))) \<and>
     http_log (snd (get_stock_data (VantageMCPServer cfg) post stock_request w)) = http_log w \<and>
     sd_data (fst (create_sample_data (req_symbol stock_request)
                     (req_period stock_request) (asyncio_sleep 1 w))) \<noteq> []"
proof
  assume m: "MCP_SERVER_URL cfg = ''mock''"
  then have "use_mock_data (VantageMCPServer cfg)" by (simp add: VantageMCPServer_def)
  then have g: "get_stock_data (VantageMCPServer cfg) post stock_request w
      = mock_data stock_request (asyncio_sleep 1 w)"
    by (simp add: get_stock_data_def)
  have "http_log (snd (mock_data stock_request (asyncio_sleep 1 w) :: (py_exn + 'a stock_payload) \<times> world))
      = http_log w"
    using create_sample_data_world
      [of "req_symbol stock_request" "req_period stock_request" "asyncio_sleep 1 w"]
    by (simp add: mock_data_result asyncio_sleep_def)
  with g show "fst (get_stock_data (VantageMCPServer cfg) post stock_request w)
       = Inr (Synthetic (fst (create_sample_data (req_symbol stock_request)
                                (req_period stock_request) (asyncio_sleep 1 w)))) \<and>
     http_log (snd (get_stock_data (VantageMCPServer cfg) post stock_request w)) = http_log w \<and>
     sd_data (fst (create_sample_data (req_symbol stock_request)
                     (req_period stock_request) (asyncio_sleep 1 w))) \<noteq> []"
    by (simp add: mock_data_result create_sample_data_nonempty)
qed

theorem get_stock_data_mock_mode_witness:
  "MCP_SERVER_URL (Config Map.empty) = ''mock'' \<and>
   fst (get_stock_data (VantageMCPServer (Config Map.empty))
          (\<lambda>rq. Inl (Raised RequestException ''unreachable'') :: py_exn + unit http_response)
          \<lparr>req_symbol = ''AMZN'', req_period = P1y, req_start_date = None, req_end_date = None\<rparr>
          demo_world)
     = Inr (Synthetic (fst (create_sample_data ''AMZN'' P1y (asyncio_sleep 1 demo_world)))) \<and>
   http_log (snd (get_stock_data (VantageMCPServer (Config Map.empty))
          (\<lambda>rq. Inl (Raised RequestException ''unreachable'') :: py_exn + unit http_response)
          \<lparr>req_symbol = ''AMZN'', req_period = P1y, req_start_date = None, req_end_date = None\<rparr>
          demo_world)) = []"
proof -
  have m: "MCP_SERVER_URL (Config Map.empty) = ''mock''"
    by (simp add: Config_def getenv_def)
  from get_stock_data_mock_mode
    [of "Config Map.empty"
        "\<lambda>rq. Inl (Raised RequestException ''unreachable'') :: py_exn + unit http_response"
        "\<lparr>req_symbol = ''AMZN'', req_period = P1y, req_start_date = None, req_end_date = None\<rparr>"
        demo_world] m
  show ?thesis by (simp add: demo_world_def)
qed

text \<open>
  C4. In live mode, for every request: if the provider answers with a status other than
  200, or \<^verbatim>\<open>requests.post\<close> raises a \<open>RequestException\<close>, \<open>get_stock_data\<close>
  raises nothing and returns the output of the synthetic generator for the request's
  symbol and period.
\<close>

theorem get_stock_data_falls_back:
  "\<not> use_mock_data self \<and>
   (case post (stock_data_request self stock_request) of
      Inr response \<Rightarrow> status_code response \<noteq> 200
    | Inl e \<Rightarrow> is_RequestException (exn_cls e)) \<longrightarrow>
   fst (get_stock_data self post stock_request w)
     = Inr (Synthetic (fst (create_sample_data (req_symbol stock_request)
                              (req_period stock_request) w)))"
proof
  assume a: "\<not> use_mock_data self \<and>
   (case post (stock_data_request self stock_request) of
      Inr response \<Rightarrow> status_code response \<noteq> 200
    | Inl e \<Rightarrow> is_RequestException (exn_cls e))"
  define w1 where "w1 = w\<lparr>http_log := http_log w @ [stock_data_request self stock_request]\<rparr>"
  have eq: "\<And>line. fst (create_sample_data (req_symbol stock_request) (req_period stock_request)
                        (print line w1))
      = fst (create_sample_data (req_symbol stock_request) (req_period stock_request) w)"
    by (rule create_sample_data_cong) (simp_all add: print_def w1_def)
  show "fst (get_stock_data self post stock_request w)
     = Inr (Synthetic (fst (create_sample_data (req_symbol stock_request)
                              (req_period stock_request) w)))"
  proof (cases "post (stock_data_request self stock_request)")
    case (Inl e)
    with a have "is_RequestException (exn_cls e)" by simp
    with a Inl show ?thesis
      by (simp add: get_stock_data_def get_stock_data_try_def requests_post_def
          mock_data_result eq w1_def [symmetric])
  next
    case (Inr response)
    with a have "status_code response \<noteq> 200" by simp
    with a Inr show ?thesis
      by (simp add: get_stock_data_def get_stock_data_try_def requests_post_def
          mock_data_result eq w1_def [symmetric])
  qed
qed

theorem get_stock_data_falls_back_witness:
  "\<not> use_mock_data (VantageMCPServer (Config [''MCP_SERVER_URL'' \<mapsto> ''https://provider.example''])) \<and>
   fst (get_stock_data (VantageMCPServer (Config [''MCP_SERVER_URL'' \<mapsto> ''https://provider.example'']))
          (\<lambda>rq. Inr \<lparr>status_code = 503, json = Inl (Raised ValueError ''no body'')\<rparr>
             :: py_exn + unit http_response)
          \<lparr>req_symbol = ''AMZN'', req_period = P1y, req_start_date = None, req_end_date = None\<rparr>
          demo_world)
     = Inr (Synthetic (fst (create_sample_data ''AMZN'' P1y demo_world)))"
proof -
  have live: "\<not> use_mock_data
      (VantageMCPServer (Config [''MCP_SERVER_URL'' \<mapsto> ''https://provider.example'']))"
    by (simp add: VantageMCPServer_def Config_def getenv_def)
  from get_stock_data_falls_back
    [of "VantageMCPServer (Config [''MCP_SERVER_URL'' \<mapsto> ''https://provider.example''])"
        "\<lambda>rq. Inr \<lparr>status_code = 503, json = Inl (Raised ValueError ''no body'')\<rparr>
           :: py_exn + unit http_response"
        "\<lparr>req_symbol = ''AMZN'', req_period = P1y, req_start_date = None, req_end_date = None\<rparr>"
        demo_world] live
  show ?thesis by simp
qed

text \<open>
  C5, evaluated where the code departs from it. Claim: with a custom range whose start is
  not before its end the sidebar shows an error, returns no usable configuration, the
  orchestrator is not called, and the rest of the run proceeds without fault. With both
  dates on 2024-01-01, \<open>setup_sidebar\<close> shows the error and returns four \<open>None\<close>s;
  \<open>run\<close> unpacks seven values from them and raises \<open>ValueError\<close>, whatever the
  orchestrator and \<^verbatim>\<open>str.upper\<close> are. Nothing but the sidebar error has happened by then.
\<close>

theorem run_rejected_dates_unpack_fails:
  "setup_sidebar str_upper
     \<lparr>symbol_text = ''AMZN'', selected_period = Year1, use_custom_dates = True,
      start_date_input = Some 738886, end_date_input = Some 738886,
      show_technical_box = True, show_volume_box = True, detailed_analysis_box = True,
      analyze_button = True, amzn_button = False, aapl_button = False\<rparr>
     = (Tuple4, [SidebarError ''Start date must be before end date'']) \<and>
   run str_upper analyze
     \<lparr>symbol_text = ''AMZN'', selected_period = Year1, use_custom_dates = True,
      start_date_input = Some 738886, end_date_input = Some 738886,
      show_technical_box = True, show_volume_box = True, detailed_analysis_box = True,
      analyze_button = True, amzn_button = False, aapl_button = False\<rparr>
     = (Inl (Raised ValueError ''not enough values to unpack (expected 7, got 4)''),
        [SidebarError ''Start date must be before end date'']) \<and>
   filter is_analyze_event
     (snd (run str_upper analyze
        \<lparr>symbol_text = ''AMZN'', selected_period = Year1, use_custom_dates = True,
         start_date_input = Some 738886, end_date_input = Some 738886,
         show_technical_box = True, show_volume_box = True, detailed_analysis_box = True,
         analyze_button = True, amzn_button = False, aapl_button = False\<rparr>)) = []"
  by (simp add: run_def setup_sidebar_def unpack_error_7_4 Let_def)

text \<open>
  C6, evaluated where the code departs from it. Claim: the generator produces about 250
  weekday points spanning roughly one year that ends at generation time, the last date
  close to the generation date. The loop walks 250 calendar days from 365 days before
  now and keeps the weekdays among them: generated on 2024-01-01, the series has 179
  points, from 2023-01-02 to 2023-09-07, and ends 116 days before the generation date.
\<close>

theorem create_sample_data_demo_dates:
  "strftime_ymd (datetime_now demo_world) = ''2024-01-01'' \<and>
   length (sd_data (fst (create_sample_data ''AMZN'' ''1y'' demo_world))) = 179 \<and>
   pt_date (hd (sd_data (fst (create_sample_data ''AMZN'' ''1y'' demo_world)))) = ''2023-01-02'' \<and>
   pt_date (last (sd_data (fst (create_sample_data ''AMZN'' ''1y'' demo_world)))) = ''2023-09-07''"
proof -
  define ds where "ds = sd_data (fst (create_sample_data ''AMZN'' ''1y'' demo_world))"
  define ks where "ks = filter (\<lambda>d. weekday d < 5)
      (map (\<lambda>i. plus_days \<lparr>ordinal = 738521, second_of_day = 0\<rparr> (int i)) [0..<250])"
  have m: "map pt_date ds = map strftime_ymd ks"
    unfolding ds_def ks_def by (simp only: create_sample_data_dates demo_start)
  have k: "length ks = 179" "hd ks = \<lparr>ordinal = 738522, second_of_day = 0\<rparr>"
    "last ks = \<lparr>ordinal = 738770, second_of_day = 0\<rparr>"
    using demo_kept_days unfolding ks_def by blast+
  from m have len: "length ds = length ks" by (metis length_map)
  with k have ne: "ds \<noteq> []" "ks \<noteq> []" by auto
  have "pt_date (hd ds) = hd (map pt_date ds)" using ne by (simp add: hd_map)
  also have "\<dots> = strftime_ymd (hd ks)" using ne m by (simp add: hd_map)
  finally have h: "pt_date (hd ds) = ''2023-01-02''"
    by (simp add: k strftime_ymd_def demo_iso_dates)
  have "pt_date (last ds) = last (map pt_date ds)" using ne by (simp add: last_map)
  also have "\<dots> = strftime_ymd (last ks)" using ne m by (simp add: last_map)
  finally have l: "pt_date (last ds) = ''2023-09-07''"
    by (simp add: k strftime_ymd_def demo_iso_dates)
  have n: "strftime_ymd (datetime_now demo_world) = ''2024-01-01''"
    by (simp add: strftime_ymd_def datetime_now_def demo_world_def demo_iso_dates)
  from n len k h l show ?thesis unfolding ds_def by simp
qed

text \<open>
  C7. Every point the synthetic generator produces has, after the rounding of its prices
  to two decimal places, a high that is at least the larger of open and close, a low that
  is at most the smaller of open and close, and an integer volume between 1,000,000 and
  5,000,000, both included. Prices are exact rationals here; the proof uses of the
  arithmetic only that adding a non-negative number does not decrease a price and that
  rounding is monotone.
\<close>

theorem create_sample_data_points_ok:
  "\<forall>pt \<in> set (sd_data (fst (create_sample_data symbol period w))).
     max (pt_open pt) (pt_close pt) \<le> pt_high pt \<and>
     pt_low pt \<le> min (pt_open pt) (pt_close pt) \<and>
     1000000 \<le> pt_volume pt \<and> pt_volume pt \<le> 5000000"
proof -
  obtain r g0 where r: "randint (- 20) 20 (random_state w) = (r, g0)"
    by (cases "randint (- 20) 20 (random_state w)")
  obtain pts g' where l: "sample_loop [0..<250] (minus_days (datetime_now w) 365) (100 + r) ([], g0) = (pts, g')"
    by (cases "sample_loop [0..<250] (minus_days (datetime_now w) 365) (100 + r) ([], g0)")
  have "\<forall>pt \<in> set pts. point_ok pt"
    using sample_loop_ok [of "[]" "[0..<250]" "minus_days (datetime_now w) 365" "100 + r" g0] l by simp
  then show ?thesis
    by (simp add: create_sample_data_def r l Let_def point_ok_def)
qed


theorem create_sample_data_points_ok_witness:
  "sd_data (fst (create_sample_data ''AMZN'' ''1y'' demo_world)) \<noteq> [] \<and>
   point_ok (hd (sd_data (fst (create_sample_data ''AMZN'' ''1y'' demo_world))))"
proof -
  have ne: "sd_data (fst (create_sample_data ''AMZN'' ''1y'' demo_world)) \<noteq> []"
    by (rule create_sample_data_nonempty)
  then have "hd (sd_data (fst (create_sample_data ''AMZN'' ''1y'' demo_world)))
      \<in> set (sd_data (fst (create_sample_data ''AMZN'' ''1y'' demo_world)))"
    by simp
  with create_sample_data_points_ok [of "''AMZN''" "''1y''" demo_world] ne show ?thesis
    unfolding point_ok_def by blast
qed

text \<open>
  C8, as stated, fails. Claim: two invocations of the generator with the same symbol,
  period and generation time return identical outputs. The generator never seeds the
  random source, so the second of two successive calls reads the tape where the first
  stopped: in the demo world the first call draws the base price 80 and the second, at
  the same clock reading, the base price 120, and the outputs differ.
\<close>

theorem create_sample_data_successive_calls_differ:
  "clock (snd (create_sample_data ''AMZN'' ''1y'' demo_world)) = clock demo_world \<and>
   fst (create_sample_data ''AMZN'' ''1y'' (snd (create_sample_data ''AMZN'' ''1y'' demo_world)))
     \<noteq> fst (create_sample_data ''AMZN'' ''1y'' demo_world)"
proof -
  define w1 where "w1 = snd (create_sample_data ''AMZN'' ''1y'' demo_world)"
  define d0 where "d0 = fst (create_sample_data ''AMZN'' ''1y'' demo_world)"
  define d1 where "d1 = fst (create_sample_data ''AMZN'' ''1y'' w1)"
  have w1: "clock w1 = clock demo_world \<and> tape (random_state w1) = demo_tape \<and>
            0 < pos (random_state w1)"
    using create_sample_data_world [of "''AMZN''" "''1y''" demo_world]
    by (simp add: w1_def demo_world_def)
  have r0: "fst (randint (- 20) 20 (random_state demo_world)) = - 20"
    by (simp add: randint_def next_raw_def demo_world_def demo_tape_def)
  have r1: "fst (randint (- 20) 20 (random_state w1)) = 20"
    using w1 by (simp add: randint_def next_raw_def demo_tape_def)
  have ne0: "sd_data d0 \<noteq> []" unfolding d0_def by (rule create_sample_data_nonempty)
  have ne1: "sd_data d1 \<noteq> []" unfolding d1_def by (rule create_sample_data_nonempty)
  have "hd (sd_data d0) \<in> set (sd_data d0)" using ne0 by simp
  with create_sample_data_open [of "''AMZN''" "''1y''" demo_world] r0
  have o0: "pt_open (hd (sd_data d0)) \<le> 82" by (simp add: d0_def)
  have "hd (sd_data d1) \<in> set (sd_data d1)" using ne1 by simp
  with create_sample_data_open [of "''AMZN''" "''1y''" w1] r1
  have o1: "118 \<le> pt_open (hd (sd_data d1))" by (simp add: d1_def)
  from o0 o1 have "d1 \<noteq> d0" by auto
  with w1 show ?thesis by (simp add: w1_def d0_def d1_def)
qed


text \<open>
  C8, amended. The output of the generator is a function of symbol, period, generation
  time and the state of the random source: two invocations from worlds that agree on the
  clock and on the random state return identical outputs, whatever else differs.
\<close>

theorem create_sample_data_deterministic_in_random_state:
  "clock w = clock w' \<and> random_state w = random_state w' \<longrightarrow>
   fst (create_sample_data symbol period w) = fst (create_sample_data symbol period w')"
  by (auto intro: create_sample_data_cong)

theorem create_sample_data_deterministic_in_random_state_witness:
  "fst (create_sample_data ''AMZN'' ''1y'' (demo_world\<lparr>stdout := [''earlier line'']\<rparr>))
     = fst (create_sample_data ''AMZN'' ''1y'' demo_world)"
proof -
  have "clock (demo_world\<lparr>stdout := [''earlier line'']\<rparr>) = clock demo_world \<and>
        random_state (demo_world\<lparr>stdout := [''earlier line'']\<rparr>) = random_state demo_world"
    by simp
  with create_sample_data_deterministic_in_random_state
         [of "demo_world\<lparr>stdout := [''earlier line'']\<rparr>" demo_world "''AMZN''" "''1y''"]
  show ?thesis by blast
qed

text \<open>
  C9, as stated, fails. Claim: for every result holding only an error with message
  \<open>m\<close> the formatter returns \<open>Error: \<close> followed by \<open>m\<close>. The formatter tests the
  truth of the message, and the empty message is false: for it the formatter returns
  \<open>No analysis result available\<close>.
\<close>

theorem format_analysis_output_empty_error:
  "format_analysis_output (\<lambda>a::unit. Inr ''report'')
     (error_only [] :: (unit, unit, unit) graph_state) = Inr ''No analysis result available'' \<and>
   format_analysis_output (\<lambda>a::unit. Inr ''report'')
     (error_only [] :: (unit, unit, unit) graph_state) \<noteq> Inr (''Error: '' @ [])"
  by (simp add: format_analysis_output_def error_only_def)

text \<open>
  C9, amended. For every result holding only an error with a non-empty message \<open>m\<close>,
  the formatter returns exactly \<open>Error: \<close> followed by \<open>m\<close>; for every result with
  neither an error nor an analysis result it returns exactly
  \<open>No analysis result available\<close>.
\<close>

theorem format_analysis_output_error_and_missing:
  "(m \<noteq> [] \<longrightarrow> format_analysis_output report (error_only m) = Inr (''Error: '' @ m)) \<and>
   (st_error result = None \<and> st_analysis_result result = None \<longrightarrow>
      format_analysis_output report result = Inr ''No analysis result available'')"
  by (simp add: format_analysis_output_def error_only_def)

theorem format_analysis_output_error_and_missing_witness:
  "format_analysis_output (\<lambda>a::unit. Inr ''report'')
     (error_only ''Analysis failed: no data'' :: (unit, unit, unit) graph_state)
     = Inr ''Error: Analysis failed: no data'' \<and>
   format_analysis_output (\<lambda>a::unit. Inr ''report'')
     (\<lparr>st_stock_request = None, st_raw_data = None, st_processed_data = None,
       st_analysis_result = None, st_error = None\<rparr> :: (unit, unit, unit) graph_state)
     = Inr ''No analysis result available''"
proof -
  have ne: "''Analysis failed: no data'' \<noteq> []" by simp
  from format_analysis_output_error_and_missing
    [of "''Analysis failed: no data''" "\<lambda>a::unit. Inr ''report''"
        "\<lparr>st_stock_request = None, st_raw_data = None, st_processed_data = None,
          st_analysis_result = None, st_error = None\<rparr> :: (unit, unit, unit) graph_state"] ne
  show ?thesis by simp
qed

text \<open>
  C10, as stated, fails. Claim: the launcher exits with the status its subprocess
  terminates with. \<open>main\<close> drops the completed process: a dashboard that terminates with
  status 1 leaves the launcher exiting with status 0.
\<close>

theorem run_app_drops_status: "fst (run_app ''/usr/bin/python3'' (\<lambda>cmd. Inr 1)) \<noteq> 1"
  by (simp add: run_app_def main_def)

text \<open>
  C10, amended. The launcher starts the dashboard as a subprocess of the current
  interpreter, with the command line \<open>-m streamlit run app.py\<close>, and for every exit
  status that subprocess terminates with, the launcher itself exits with status 0.
\<close>

theorem run_app_exits_zero:
  "spawn [executable, ''-m'', ''streamlit'', ''run'', ''app.py''] = Inr status \<longrightarrow>
   run_app executable spawn = (0, [[executable, ''-m'', ''streamlit'', ''run'', ''app.py'']])"
  by (simp add: run_app_def main_def)

theorem run_app_exits_zero_witness:
  "run_app ''/usr/bin/python3'' (\<lambda>cmd. Inr 3)
     = (0, [[''/usr/bin/python3'', ''-m'', ''streamlit'', ''run'', ''app.py'']])"
proof -
  have "(\<lambda>cmd::string list. Inr 3 :: py_exn + int)
          [''/usr/bin/python3'', ''-m'', ''streamlit'', ''run'', ''app.py''] = Inr 3"
    by simp
  with run_app_exits_zero [of "\<lambda>cmd. Inr 3" "''/usr/bin/python3''" 3]
  show ?thesis by blast
qed

end
